theory Spec2Isabelle
  imports Complex_Main "HOL-Library.AList"
begin

section \<open>DatabasePoller.py: plan cache snapshots, their diff, and the poll cycle\<close>

text \<open>
  The embedding follows \<^verbatim>\<open>src/memsql_top/DatabasePoller.py\<close>.

  \<^item> Python dictionaries are association lists with the dictionary's iteration order;
    \<open>key in d\<close> and \<open>d[key]\<close> are \<open>map_of d key\<close>, and \<open>d[key] = v\<close> is
    \<open>AList.update key v d\<close> (overwrite in place, or append a new key).
  \<^item> The counters of a row are Python integers (\<open>int\<close>).
  \<^item> Python floats are modelled as real numbers: \<open>float(n)\<close> is \<open>real_of_int n\<close> and
    \<open>/\<close> is exact division that raises \<open>ZeroDivisionError\<close> on a zero divisor.
    Rounding, infinities and \<open>OverflowError\<close> of \<open>float\<close> on huge integers are outside
    the model.
  \<^item> Every raise is a value \<open>Inl e\<close> of \<open>py_error + 'a\<close>.
  \<^item> The database connection, the event loop and the signal machinery of urwid are
    external. The connection is a pair of functions giving the outcome of
    \<open>conn.query(sql)\<close> and \<open>conn.get(sql)\<close> during one poll cycle; what the poll does to
    the outside (arming the alarm, calling the connection, emitting a signal) is
    recorded, in order, in a list of effects. Arming the alarm and emitting a signal
    are taken to return: what the callbacks connected to a signal do is not modelled.
  \<^item> The order in which a dictionary is iterated is the order of its list. The theorems
    about \<open>DiffPlanCache\<close> hold for every list of items, so for every iteration order;
    the sum of \<open>CpuUtil\<close> is a sum of reals and does not depend on it either.
\<close>

subsection \<open>Errors\<close>

datatype py_error =
    ZeroDivisionError
  | ColumnCheckError
  | QueryError
  | ValueError

text \<open>Float division \<open>a / b\<close> of Python.\<close>

definition py_fdiv :: "real \<Rightarrow> real \<Rightarrow> py_error + real" where
  "py_fdiv a b = (if b = 0 then Inl ZeroDivisionError else Inr (a / b))"

subsection \<open>Data\<close>

type_synonym ('k, 'v) dict = "('k \<times> 'v) list"

text \<open>A row of \<open>distributed_plancache_summary\<close> as \<open>GET_PLANCACHE_QUERY\<close> selects it.\<close>

record 'k PlanCacheRow =
  database_name :: string
  query_text :: string
  plan_hash :: 'k
  commits :: int
  rowcount :: int
  execution_time :: int
  queued_time :: int
  cpu_time :: int
  memory_use :: int

text \<open>
  The \<open>AttrDict\<close> built by \<open>NormalizeDiffPlanCacheEntry\<close>; the keys
  \<open>'Executions/sec'\<close>, \<open>'RowCount/sec'\<close>, \<open>'ExecutionTime/query'\<close>, \<open>'Memory/query'\<close>
  and \<open>'QueuedTime/query'\<close> are written with an underscore.
\<close>

record IntervalMetricRecord =
  Database :: string
  Query :: string
  Executions_sec :: real
  RowCount_sec :: real
  CpuUtil :: real
  ExecutionTime_query :: real
  Memory_query :: real
  QueuedTime_query :: real

text \<open>The row \<open>conn.get("show status like 'Total_server_memory'")\<close> returns.\<close>

record StatusRow =
  Value :: string

record 'k Connection =
  conn_query :: "string \<Rightarrow> py_error + 'k PlanCacheRow list"
  conn_get :: "string \<Rightarrow> py_error + StatusRow"

subsection \<open>GetPlanCache\<close>

definition GET_PLANCACHE_QUERY :: string where
  "GET_PLANCACHE_QUERY =
     ''select database_name, query_text, plan_hash, '' @
     ''IFNULL(commits, 0) as commits, '' @
     ''IFNULL(rowcount, 0) as rowcount, '' @
     ''IFNULL(execution_time, 0) as execution_time, '' @
     ''IFNULL(queued_time, 0) as queued_time, '' @
     ''IFNULL(cpu_time, 0) as cpu_time, '' @
     ''IFNULL(memory_use, 0) as memory_use '' @
     ''from distributed_plancache_summary '' @
     ''where plan_hash is not null''"

text \<open>
  The dictionary comprehension \<open>{r.plan_hash: r for r in rows if ...}\<close>: the rows are
  stored in order, a later row overwriting an earlier one with the same \<open>plan_hash\<close>.
\<close>

fun rows_to_dict :: "'k PlanCacheRow list \<Rightarrow> ('k, 'k PlanCacheRow) dict
    \<Rightarrow> ('k, 'k PlanCacheRow) dict" where
  "rows_to_dict [] d = d"
| "rows_to_dict (r # rows) d =
     (if query_text r \<noteq> GET_PLANCACHE_QUERY
      then rows_to_dict rows (AList.update (plan_hash r) r d)
      else rows_to_dict rows d)"

definition GetPlanCache :: "'k Connection \<Rightarrow> py_error + ('k, 'k PlanCacheRow) dict" where
  "GetPlanCache conn =
     (case conn_query conn GET_PLANCACHE_QUERY of
        Inl e \<Rightarrow> Inl e
      | Inr rows \<Rightarrow> Inr (rows_to_dict rows []))"

subsection \<open>NormalizeDiffPlanCacheEntry\<close>

text \<open>
  \<open>CheckHasDataForAllColumns\<close> is imported from the module \<open>columns\<close>, which is not part
  of the sources at hand. It is a parameter \<open>chk\<close> of the model: \<open>chk r = None\<close> when the
  check raises on the record \<open>r\<close> (the model's \<open>ColumnCheckError\<close>), and
  \<open>chk r = Some r'\<close> when it returns \<open>r'\<close>.

  The values of the dictionary literal are evaluated in the order they are written, so
  the divisions by \<open>interval\<close> come before the divisions by \<open>float(commits)\<close>.
\<close>

definition NormalizeDiffPlanCacheEntry ::
    "(IntervalMetricRecord \<Rightarrow> IntervalMetricRecord option) \<Rightarrow> real \<Rightarrow> string \<Rightarrow> string
      \<Rightarrow> int \<Rightarrow> int \<Rightarrow> int \<Rightarrow> int \<Rightarrow> int \<Rightarrow> int \<Rightarrow> py_error + IntervalMetricRecord" where
  "NormalizeDiffPlanCacheEntry chk interval database_name' query_text'
       commits' rowcount' cpu_time' execution_time' memory_use' queued_time' =
     (case py_fdiv (real_of_int commits') interval of Inl e \<Rightarrow> Inl e | Inr executions_sec \<Rightarrow>
      case py_fdiv (real_of_int rowcount') interval of Inl e \<Rightarrow> Inl e | Inr rowcount_sec \<Rightarrow>
      case py_fdiv (real_of_int cpu_time') 1000 of Inl e \<Rightarrow> Inl e | Inr cpu_seconds \<Rightarrow>
      case py_fdiv cpu_seconds interval of Inl e \<Rightarrow> Inl e | Inr cpu_util \<Rightarrow>
      case py_fdiv (real_of_int execution_time') (real_of_int commits') of
        Inl e \<Rightarrow> Inl e | Inr execution_time_query \<Rightarrow>
      case py_fdiv (real_of_int memory_use') (real_of_int commits') of
        Inl e \<Rightarrow> Inl e | Inr memory_query \<Rightarrow>
      case py_fdiv (real_of_int queued_time') (real_of_int commits') of
        Inl e \<Rightarrow> Inl e | Inr queued_time_query \<Rightarrow>
      (case chk \<lparr> Database = database_name', Query = query_text',
                  Executions_sec = executions_sec, RowCount_sec = rowcount_sec,
                  CpuUtil = cpu_util, ExecutionTime_query = execution_time_query,
                  Memory_query = memory_query, QueuedTime_query = queued_time_query \<rparr> of
         None \<Rightarrow> Inl ColumnCheckError
       | Some r \<Rightarrow> Inr r))"

subsection \<open>DiffPlanCache\<close>

text \<open>
  The loop \<open>for key, n_ent in new_plancache.items()\<close>, with the dictionary
  \<open>diff_plancache\<close> under construction as its last argument. A raise inside
  \<open>NormalizeDiffPlanCacheEntry\<close> leaves the loop and the function.
\<close>

fun DiffPlanCache_loop ::
    "(IntervalMetricRecord \<Rightarrow> IntervalMetricRecord option)
      \<Rightarrow> ('k, 'k PlanCacheRow) dict \<Rightarrow> ('k, 'k PlanCacheRow) dict \<Rightarrow> real
      \<Rightarrow> ('k, IntervalMetricRecord) dict \<Rightarrow> py_error + ('k, IntervalMetricRecord) dict" where
  "DiffPlanCache_loop chk [] old_plancache interval diff_plancache = Inr diff_plancache"
| "DiffPlanCache_loop chk ((key, n_ent) # items) old_plancache interval diff_plancache =
     (case map_of old_plancache key of
        None \<Rightarrow>
          (if commits n_ent > 0
           then (case NormalizeDiffPlanCacheEntry chk interval
                        (database_name n_ent) (query_text n_ent)
                        (commits n_ent) (rowcount n_ent) (cpu_time n_ent)
                        (execution_time n_ent) (memory_use n_ent) (queued_time n_ent) of
                   Inl e \<Rightarrow> Inl e
                 | Inr r \<Rightarrow> DiffPlanCache_loop chk items old_plancache interval
                             (AList.update key r diff_plancache))
           else DiffPlanCache_loop chk items old_plancache interval diff_plancache)
      | Some o_ent \<Rightarrow>
          (if commits n_ent - commits o_ent > 0
           then (case NormalizeDiffPlanCacheEntry chk interval
                        (database_name n_ent) (query_text n_ent)
                        (commits n_ent - commits o_ent) (rowcount n_ent - rowcount o_ent)
                        (cpu_time n_ent - cpu_time o_ent)
                        (execution_time n_ent - execution_time o_ent)
                        (memory_use n_ent - memory_use o_ent)
                        (queued_time n_ent - queued_time o_ent) of
                   Inl e \<Rightarrow> Inl e
                 | Inr r \<Rightarrow> DiffPlanCache_loop chk items old_plancache interval
                             (AList.update key r diff_plancache))
           else DiffPlanCache_loop chk items old_plancache interval diff_plancache))"

definition DiffPlanCache ::
    "(IntervalMetricRecord \<Rightarrow> IntervalMetricRecord option)
      \<Rightarrow> ('k, 'k PlanCacheRow) dict \<Rightarrow> ('k, 'k PlanCacheRow) dict \<Rightarrow> real
      \<Rightarrow> py_error + ('k, IntervalMetricRecord) dict" where
  "DiffPlanCache chk new_plancache old_plancache interval =
     DiffPlanCache_loop chk new_plancache old_plancache interval []"

subsection \<open>The body of the loop, named for the proofs\<close>

text \<open>
  \<open>included\<close> is the test the loop makes on an item of the new snapshot (the two
  \<open>if\<close> conditions), and \<open>entry_metrics\<close> the call of
  \<open>NormalizeDiffPlanCacheEntry\<close> it then makes (with the raw counters for a key the
  old snapshot does not have, with the differences otherwise). \<open>loop_Cons\<close> below
  shows that the loop is written with them.
\<close>

definition included :: "('k, 'k PlanCacheRow) dict \<Rightarrow> 'k \<Rightarrow> 'k PlanCacheRow \<Rightarrow> bool" where
  "included old_plancache key n_ent =
     (case map_of old_plancache key of
        None \<Rightarrow> commits n_ent > 0
      | Some o_ent \<Rightarrow> commits n_ent - commits o_ent > 0)"

definition entry_metrics ::
    "(IntervalMetricRecord \<Rightarrow> IntervalMetricRecord option) \<Rightarrow> ('k, 'k PlanCacheRow) dict \<Rightarrow> real
      \<Rightarrow> 'k \<Rightarrow> 'k PlanCacheRow \<Rightarrow> py_error + IntervalMetricRecord" where
  "entry_metrics chk old_plancache interval key n_ent =
     (case map_of old_plancache key of
        None \<Rightarrow>
          NormalizeDiffPlanCacheEntry chk interval
            (database_name n_ent) (query_text n_ent)
            (commits n_ent) (rowcount n_ent) (cpu_time n_ent)
            (execution_time n_ent) (memory_use n_ent) (queued_time n_ent)
      | Some o_ent \<Rightarrow>
          NormalizeDiffPlanCacheEntry chk interval
            (database_name n_ent) (query_text n_ent)
            (commits n_ent - commits o_ent) (rowcount n_ent - rowcount o_ent)
            (cpu_time n_ent - cpu_time o_ent)
            (execution_time n_ent - execution_time o_ent)
            (memory_use n_ent - memory_use o_ent)
            (queued_time n_ent - queued_time o_ent))"

subsection \<open>DatabasePoller\<close>

record 'k DatabasePoller =
  update_interval :: real
  plancache :: "('k, 'k PlanCacheRow) dict"

text \<open>What a poll cycle does to the outside, in the order it does it.\<close>

datatype 'k effect =
    SetAlarmIn real
  | ConnQuery string
  | ConnGet string
  | Emit_plancache_changed "('k, IntervalMetricRecord) dict"
  | Emit_cpu_util_changed real
  | Emit_mem_usage_changed real

fun is_emit :: "'k effect \<Rightarrow> bool" where
  "is_emit (Emit_plancache_changed d) = True"
| "is_emit (Emit_cpu_util_changed v) = True"
| "is_emit (Emit_mem_usage_changed v) = True"
| "is_emit eff = False"

text \<open>
  The state of the poller after the call, the effects of the call, and the exception
  that left it (\<open>None\<close> when \<open>poll\<close> returned).
\<close>

record 'k poll_outcome =
  poller :: "'k DatabasePoller"
  effects :: "'k effect list"
  raised :: "py_error option"

text \<open>\<open>__init__\<close>: the first snapshot is fetched when the poller is built.\<close>

definition DatabasePoller_init :: "'k Connection \<Rightarrow> real \<Rightarrow> py_error + 'k DatabasePoller" where
  "DatabasePoller_init conn update_interval' =
     (case GetPlanCache conn of
        Inl e \<Rightarrow> Inl e
      | Inr pc \<Rightarrow> Inr \<lparr> update_interval = update_interval', plancache = pc \<rparr>)"

definition TOTAL_SERVER_MEMORY_QUERY :: string where
  "TOTAL_SERVER_MEMORY_QUERY =
     ''show status like '' @ [CHR 0x27] @ ''Total_server_memory'' @ [CHR 0x27]"

text \<open>\<open>s.split(" ")[0]\<close>: the text before the first space (all of \<open>s\<close> when it has none).\<close>

definition split_space_first :: "string \<Rightarrow> string" where
  "split_space_first s = takeWhile (\<lambda>c. c \<noteq> CHR '' '') s"

text \<open>
  \<open>poll(self, loop, _)\<close>. The builtin \<open>float\<close> applied to a string is the parameter
  \<open>pyfloat\<close>; \<open>sum\<close> over the values of the diff is \<open>sum_list\<close>.
\<close>

definition poll ::
    "(IntervalMetricRecord \<Rightarrow> IntervalMetricRecord option) \<Rightarrow> (string \<Rightarrow> py_error + real)
      \<Rightarrow> 'k DatabasePoller \<Rightarrow> 'k Connection \<Rightarrow> 'k poll_outcome" where
  "poll chk pyfloat self conn =
     (let fx0 = [SetAlarmIn (update_interval self), ConnQuery GET_PLANCACHE_QUERY] in
      case GetPlanCache conn of
        Inl e \<Rightarrow> \<lparr> poller = self, effects = fx0, raised = Some e \<rparr>
      | Inr new_plancache \<Rightarrow>
      (case DiffPlanCache chk new_plancache (plancache self) (update_interval self) of
        Inl e \<Rightarrow> \<lparr> poller = self, effects = fx0, raised = Some e \<rparr>
      | Inr diff_plancache \<Rightarrow>
      (let fx1 = fx0 @ [Emit_plancache_changed diff_plancache];
           self1 = self \<lparr> plancache := new_plancache \<rparr>;
           sum_cpu_util = sum_list (map (\<lambda>(key, pe). CpuUtil pe) diff_plancache);
           fx2 = fx1 @ [Emit_cpu_util_changed sum_cpu_util, ConnGet TOTAL_SERVER_MEMORY_QUERY]
       in
       case conn_get conn TOTAL_SERVER_MEMORY_QUERY of
         Inl e \<Rightarrow> \<lparr> poller = self1, effects = fx2, raised = Some e \<rparr>
       | Inr tsm_row \<Rightarrow>
       (case pyfloat (split_space_first (Value tsm_row)) of
          Inl e \<Rightarrow> \<lparr> poller = self1, effects = fx2, raised = Some e \<rparr>
        | Inr mem \<Rightarrow> \<lparr> poller = self1,
                       effects = fx2 @ [Emit_mem_usage_changed mem],
                       raised = None \<rparr>))))"

subsection \<open>The check of the columns, and a worked example\<close>

text \<open>
  The assumption under which the record stored in the diff is the record
  \<open>NormalizeDiffPlanCacheEntry\<close> builds: \<open>CheckHasDataForAllColumns\<close> accepts every
  record and returns it as it is.
\<close>

definition returns_its_argument :: "(IntervalMetricRecord \<Rightarrow> IntervalMetricRecord option) \<Rightarrow> bool" where
  "returns_its_argument chk \<longleftrightarrow> (\<forall>r. chk r = Some r)"

text \<open>
  Two snapshots five seconds apart. \<open>A\<close> has run five more times, \<open>B\<close> is new and has
  not committed, the counters of \<open>C\<close> were reset, \<open>N\<close> is new and has committed four
  times, and \<open>P\<close> has run twice more while its other counters went down.
\<close>

definition example_row :: "string \<Rightarrow> int \<Rightarrow> int \<Rightarrow> int \<Rightarrow> int \<Rightarrow> int \<Rightarrow> int \<Rightarrow> string PlanCacheRow" where
  "example_row h c rc et qt cpu mu =
     \<lparr> database_name = ''db'', query_text = ''select * from t'', plan_hash = h,
       commits = c, rowcount = rc, execution_time = et, queued_time = qt,
       cpu_time = cpu, memory_use = mu \<rparr>"

definition example_old :: "(string, string PlanCacheRow) dict" where
  "example_old =
     [(''A'', example_row ''A'' 10 100 1000 40 2000 800),
      (''C'', example_row ''C'' 20 200 2000 80 4000 1600),
      (''P'', example_row ''P'' 10 100 5000 50 100 900)]"

definition example_new :: "(string, string PlanCacheRow) dict" where
  "example_new =
     [(''A'', example_row ''A'' 15 150 2000 50 2500 1000),
      (''B'', example_row ''B'' 0 0 0 0 0 0),
      (''C'', example_row ''C'' 5 50 500 20 1000 400),
      (''N'', example_row ''N'' 4 8 400 40 2000 1200),
      (''P'', example_row ''P'' 12 90 4000 30 50 700)]"

definition example_metrics :: "real \<Rightarrow> real \<Rightarrow> real \<Rightarrow> real \<Rightarrow> real \<Rightarrow> real \<Rightarrow> IntervalMetricRecord" where
  "example_metrics es rs cu etq mq qtq =
     \<lparr> Database = ''db'', Query = ''select * from t'',
       Executions_sec = es, RowCount_sec = rs, CpuUtil = cu,
       ExecutionTime_query = etq, Memory_query = mq, QueuedTime_query = qtq \<rparr>"

definition example_diff :: "(string, IntervalMetricRecord) dict" where
  "example_diff =
     [(''A'', example_metrics 1 10 (1/10) 200 40 2),
      (''N'', example_metrics (4/5) (8/5) (2/5) 100 300 10),
      (''P'', example_metrics (2/5) (-2) (-(1/100)) (-500) (-100) (-10))]"

text \<open>
  The rows the connection returns for the new snapshot (among them the row of the
  monitoring query itself, which \<open>GetPlanCache\<close> leaves out), three connections (one
  that answers, one whose plan cache query fails, one whose status row has no number),
  a stand-in for \<open>float\<close> on the strings of the example, and two pollers.
\<close>

definition example_rows :: "string PlanCacheRow list" where
  "example_rows =
     [example_row ''A'' 15 150 2000 50 2500 1000,
      example_row ''B'' 0 0 0 0 0 0,
      \<lparr> database_name = ''db'', query_text = GET_PLANCACHE_QUERY, plan_hash = ''Q'',
        commits = 7, rowcount = 70, execution_time = 700, queued_time = 7,
        cpu_time = 70, memory_use = 7000 \<rparr>,
      example_row ''C'' 5 50 500 20 1000 400,
      example_row ''N'' 4 8 400 40 2000 1200,
      example_row ''P'' 12 90 4000 30 50 700]"

definition example_conn :: "string Connection" where
  "example_conn =
     \<lparr> conn_query = (\<lambda>sql. if sql = GET_PLANCACHE_QUERY then Inr example_rows
                             else Inl QueryError),
       conn_get = (\<lambda>sql. if sql = TOTAL_SERVER_MEMORY_QUERY then Inr \<lparr> Value = ''2048 MB'' \<rparr>
                           else Inl QueryError) \<rparr>"

definition example_conn_down :: "string Connection" where
  "example_conn_down =
     \<lparr> conn_query = (\<lambda>sql. Inl QueryError),
       conn_get = (\<lambda>sql. if sql = TOTAL_SERVER_MEMORY_QUERY then Inr \<lparr> Value = ''2048 MB'' \<rparr>
                           else Inl QueryError) \<rparr>"

definition example_conn_bad_status :: "string Connection" where
  "example_conn_bad_status =
     \<lparr> conn_query = (\<lambda>sql. if sql = GET_PLANCACHE_QUERY then Inr example_rows
                             else Inl QueryError),
       conn_get = (\<lambda>sql. Inr \<lparr> Value = ''unknown'' \<rparr>) \<rparr>"

definition example_float :: "string \<Rightarrow> py_error + real" where
  "example_float s = (if s = ''2048'' then Inr 2048 else Inl ValueError)"

definition example_poller :: "string DatabasePoller" where
  "example_poller = \<lparr> update_interval = 5, plancache = example_old \<rparr>"

definition example_poller_same :: "string DatabasePoller" where
  "example_poller_same = \<lparr> update_interval = 5, plancache = example_new \<rparr>"

section \<open>Properties of the loop of DiffPlanCache\<close>

lemma loop_Cons:
  "DiffPlanCache_loop chk ((key, n_ent) # items) old interval acc =
     (if included old key n_ent
      then (case entry_metrics chk old interval key n_ent of
              Inl e \<Rightarrow> Inl e
            | Inr r \<Rightarrow> DiffPlanCache_loop chk items old interval (AList.update key r acc))
      else DiffPlanCache_loop chk items old interval acc)"
  by (simp add: included_def entry_metrics_def split: option.split)

declare DiffPlanCache_loop.simps(2) [simp del]

lemma Normalize_ok:
  assumes "interval \<noteq> 0" "c \<noteq> 0"
  shows "NormalizeDiffPlanCacheEntry chk interval db q c rc cpu et mu qt =
     (case chk \<lparr> Database = db, Query = q,
                 Executions_sec = real_of_int c / interval,
                 RowCount_sec = real_of_int rc / interval,
                 CpuUtil = real_of_int cpu / 1000 / interval,
                 ExecutionTime_query = real_of_int et / real_of_int c,
                 Memory_query = real_of_int mu / real_of_int c,
                 QueuedTime_query = real_of_int qt / real_of_int c \<rparr> of
        None \<Rightarrow> Inl ColumnCheckError
      | Some r \<Rightarrow> Inr r)"
  using assms by (simp add: NormalizeDiffPlanCacheEntry_def py_fdiv_def)

lemma Normalize_zero:
  assumes "interval = 0 \<or> c = 0"
  shows "NormalizeDiffPlanCacheEntry chk interval db q c rc cpu et mu qt = Inl ZeroDivisionError"
  using assms by (auto simp add: NormalizeDiffPlanCacheEntry_def py_fdiv_def)

lemma loop_excluded:
  assumes "DiffPlanCache_loop chk items old interval acc = Inr d"
    and "\<forall>n. (k, n) \<in> set items \<longrightarrow> \<not> included old k n"
  shows "map_of d k = map_of acc k"
  using assms
proof (induction items arbitrary: acc)
  case Nil
  then show ?case by simp
next
  case (Cons it items)
  obtain key n_ent where it: "it = (key, n_ent)" by (cases it)
  show ?case
  proof (cases "included old key n_ent")
    case False
    with Cons.prems it have "DiffPlanCache_loop chk items old interval acc = Inr d"
      by (simp add: loop_Cons)
    with Cons.IH Cons.prems(2) show ?thesis by simp
  next
    case True
    with Cons.prems(2) it have ne: "key \<noteq> k" by auto
    from True Cons.prems(1) it obtain r where
      r: "entry_metrics chk old interval key n_ent = Inr r"
      and rest: "DiffPlanCache_loop chk items old interval (AList.update key r acc) = Inr d"
      by (auto simp add: loop_Cons split: sum.splits)
    from Cons.IH [OF rest] Cons.prems(2)
    have "map_of d k = map_of (AList.update key r acc) k" by simp
    with ne show ?thesis by (simp add: update_conv')
  qed
qed

lemma loop_origin:
  assumes "DiffPlanCache_loop chk items old interval acc = Inr d"
    and "map_of d k = Some e"
  shows "map_of acc k = Some e \<or>
     (\<exists>n. (k, n) \<in> set items \<and> included old k n \<and> entry_metrics chk old interval k n = Inr e)"
  using assms
proof (induction items arbitrary: acc)
  case Nil
  then show ?case by simp
next
  case (Cons it items)
  obtain key n_ent where it: "it = (key, n_ent)" by (cases it)
  show ?case
  proof (cases "included old key n_ent")
    case False
    with Cons.prems it have "DiffPlanCache_loop chk items old interval acc = Inr d"
      by (simp add: loop_Cons)
    from Cons.IH [OF this Cons.prems(2)] show ?thesis by auto
  next
    case True
    from True Cons.prems(1) it obtain r where
      r: "entry_metrics chk old interval key n_ent = Inr r"
      and rest: "DiffPlanCache_loop chk items old interval (AList.update key r acc) = Inr d"
      by (auto simp add: loop_Cons split: sum.splits)
    from Cons.IH [OF rest Cons.prems(2)]
    consider "map_of (AList.update key r acc) k = Some e"
      | n where "(k, n) \<in> set items" "included old k n" "entry_metrics chk old interval k n = Inr e"
      by blast
    then show ?thesis
    proof cases
      case 1
      show ?thesis
      proof (cases "key = k")
        case True
        with 1 have "r = e" by (simp add: update_conv')
        with r True \<open>included old key n_ent\<close> it show ?thesis by auto
      next
        case False
        with 1 show ?thesis by (simp add: update_conv')
      qed
    next
      case 2
      then show ?thesis by auto
    qed
  qed
qed

lemma loop_present:
  assumes "DiffPlanCache_loop chk items old interval acc = Inr d"
    and "distinct (map fst items)"
    and "(k, n) \<in> set items"
    and "included old k n"
  shows "\<exists>e. entry_metrics chk old interval k n = Inr e \<and> map_of d k = Some e"
  using assms
proof (induction items arbitrary: acc)
  case Nil
  then show ?case by simp
next
  case (Cons it items)
  obtain key n_ent where it: "it = (key, n_ent)" by (cases it)
  from Cons.prems(2) it have dist: "distinct (map fst items)" and fresh: "key \<notin> fst ` set items"
    by auto
  show ?case
  proof (cases "(k, n) = (key, n_ent)")
    case True
    with Cons.prems(1,4) it obtain r where
      r: "entry_metrics chk old interval k n = Inr r"
      and rest: "DiffPlanCache_loop chk items old interval (AList.update k r acc) = Inr d"
      by (auto simp add: loop_Cons split: sum.splits)
    from fresh True have "\<forall>m. (k, m) \<in> set items \<longrightarrow> \<not> included old k m"
      by (auto simp add: image_iff)
    from loop_excluded [OF rest this] have "map_of d k = Some r"
      by (simp add: update_conv')
    with r show ?thesis by simp
  next
    case False
    with Cons.prems(3) it have mem: "(k, n) \<in> set items" by auto
    show ?thesis
    proof (cases "included old key n_ent")
      case False
      with Cons.prems(1) it have "DiffPlanCache_loop chk items old interval acc = Inr d"
        by (simp add: loop_Cons)
      from Cons.IH [OF this dist mem Cons.prems(4)] show ?thesis .
    next
      case True
      with Cons.prems(1) it obtain r where
        rest: "DiffPlanCache_loop chk items old interval (AList.update key r acc) = Inr d"
        by (auto simp add: loop_Cons split: sum.splits)
      from Cons.IH [OF rest dist mem Cons.prems(4)] show ?thesis .
    qed
  qed
qed

lemma entry_metrics_total:
  assumes "interval \<noteq> 0" "\<forall>r. chk r \<noteq> None" "included old key n_ent"
  shows "\<exists>r. entry_metrics chk old interval key n_ent = Inr r"
  using assms
  by (auto simp add: entry_metrics_def included_def Normalize_ok split: option.splits)

lemma loop_total:
  assumes "interval \<noteq> 0" "\<forall>r. chk r \<noteq> None"
  shows "\<exists>d. DiffPlanCache_loop chk items old interval acc = Inr d"
proof (induction items arbitrary: acc)
  case Nil
  then show ?case by simp
next
  case (Cons it items)
  obtain key n_ent where it: "it = (key, n_ent)" by (cases it)
  show ?case
  proof (cases "included old key n_ent")
    case False
    with Cons.IH it show ?thesis by (simp add: loop_Cons)
  next
    case True
    from entry_metrics_total [OF assms True] obtain r where
      "entry_metrics chk old interval key n_ent = Inr r" ..
    with True Cons.IH it show ?thesis by (simp add: loop_Cons)
  qed
qed

lemma entry_metrics_no_zero_division:
  assumes "interval \<noteq> 0" "included old key n_ent"
  shows "entry_metrics chk old interval key n_ent \<noteq> Inl ZeroDivisionError"
  using assms
  by (auto simp add: entry_metrics_def included_def Normalize_ok split: option.splits)

lemma loop_no_zero_division:
  assumes "interval \<noteq> 0"
  shows "DiffPlanCache_loop chk items old interval acc \<noteq> Inl ZeroDivisionError"
proof (induction items arbitrary: acc)
  case Nil
  then show ?case by simp
next
  case (Cons it items)
  obtain key n_ent where it: "it = (key, n_ent)" by (cases it)
  show ?case
  proof (cases "included old key n_ent")
    case False
    with Cons.IH it show ?thesis by (simp add: loop_Cons)
  next
    case True
    from entry_metrics_no_zero_division [OF assms True]
    have "entry_metrics chk old interval key n_ent \<noteq> Inl ZeroDivisionError" .
    with True Cons.IH it show ?thesis by (auto simp add: loop_Cons split: sum.splits)
  qed
qed

lemma loop_distinct:
  assumes "DiffPlanCache_loop chk items old interval acc = Inr d"
    and "distinct (map fst acc)"
  shows "distinct (map fst d)"
  using assms
proof (induction items arbitrary: acc)
  case Nil
  then show ?case by simp
next
  case (Cons it items)
  obtain key n_ent where it: "it = (key, n_ent)" by (cases it)
  show ?case
  proof (cases "included old key n_ent")
    case False
    with Cons it show ?thesis by (simp add: loop_Cons)
  next
    case True
    with Cons.prems(1) it obtain r where
      rest: "DiffPlanCache_loop chk items old interval (AList.update key r acc) = Inr d"
      by (auto simp add: loop_Cons split: sum.splits)
    from Cons.prems(2) have "distinct (map fst (AList.update key r acc))"
      by (rule distinct_update)
    from Cons.IH [OF rest this] show ?thesis .
  qed
qed

section \<open>The worked example, evaluated\<close>

lemma example_diff_computed:
  "DiffPlanCache Some example_new example_old 5 = Inr example_diff"
  by (simp add: DiffPlanCache_def example_new_def example_old_def example_diff_def
      example_row_def example_metrics_def DiffPlanCache_loop.simps(2)
      NormalizeDiffPlanCacheEntry_def py_fdiv_def)

section \<open>Dictionaries and the inclusion test\<close>

lemma dict_member:
  assumes "distinct (map fst d)" "(k, v) \<in> set d"
  shows "map_of d k = Some v"
  using assms by simp

lemma included_known:
  "map_of old k = Some o_ent \<Longrightarrow> included old k n \<longleftrightarrow> 0 < commits n - commits o_ent"
  by (simp add: included_def)

lemma included_unknown:
  "map_of old k = None \<Longrightarrow> included old k n \<longleftrightarrow> 0 < commits n"
  by (simp add: included_def)

lemma loop_all_excluded:
  assumes "\<And>k n. (k, n) \<in> set items \<Longrightarrow> \<not> included old k n"
  shows "DiffPlanCache_loop chk items old interval acc = Inr acc"
  using assms
proof (induction items)
  case Nil
  show ?case by simp
next
  case (Cons it items)
  obtain key n_ent where it: "it = (key, n_ent)" by (cases it)
  with Cons.prems have "\<not> included old key n_ent" by simp
  with Cons it show ?case by (simp add: loop_Cons)
qed

section \<open>NormalizeDiffPlanCacheEntry and DiffPlanCache as a whole\<close>

lemma Normalize_Inr:
  assumes "NormalizeDiffPlanCacheEntry chk interval db q c rc cpu et mu qt = Inr e"
  shows "interval \<noteq> 0 \<and> c \<noteq> 0 \<and>
     chk \<lparr> Database = db, Query = q,
           Executions_sec = real_of_int c / interval,
           RowCount_sec = real_of_int rc / interval,
           CpuUtil = real_of_int cpu / 1000 / interval,
           ExecutionTime_query = real_of_int et / real_of_int c,
           Memory_query = real_of_int mu / real_of_int c,
           QueuedTime_query = real_of_int qt / real_of_int c \<rparr> = Some e"
proof -
  from assms have nz: "interval \<noteq> 0 \<and> c \<noteq> 0"
    using Normalize_zero [of interval c chk db q rc cpu et mu qt] by auto
  with assms show ?thesis
    by (simp add: Normalize_ok split: option.splits)
qed

lemma Normalize_returned:
  assumes "NormalizeDiffPlanCacheEntry chk interval db q c rc cpu et mu qt = Inr e"
    and "returns_its_argument chk"
  shows "e = \<lparr> Database = db, Query = q,
           Executions_sec = real_of_int c / interval,
           RowCount_sec = real_of_int rc / interval,
           CpuUtil = real_of_int cpu / 1000 / interval,
           ExecutionTime_query = real_of_int et / real_of_int c,
           Memory_query = real_of_int mu / real_of_int c,
           QueuedTime_query = real_of_int qt / real_of_int c \<rparr>"
  using Normalize_Inr [OF assms(1)] assms(2) by (simp add: returns_its_argument_def)

lemma DiffPlanCache_returns:
  assumes "interval \<noteq> 0" "returns_its_argument chk"
  shows "\<exists>d. DiffPlanCache chk new_plancache old_plancache interval = Inr d"
proof -
  from assms(2) have "\<forall>r. chk r \<noteq> None" by (simp add: returns_its_argument_def)
  with assms(1) show ?thesis unfolding DiffPlanCache_def by (rule loop_total)
qed

lemma DiffPlanCache_origin:
  assumes "distinct (map fst new_plancache)"
    and "DiffPlanCache chk new_plancache old_plancache interval = Inr d"
    and "map_of d k = Some e"
  shows "\<exists>n. map_of new_plancache k = Some n \<and> included old_plancache k n \<and>
     entry_metrics chk old_plancache interval k n = Inr e"
proof -
  from loop_origin [OF assms(2) [unfolded DiffPlanCache_def] assms(3)]
  obtain n where "(k, n) \<in> set new_plancache" "included old_plancache k n"
    "entry_metrics chk old_plancache interval k n = Inr e" by auto
  with assms(1) show ?thesis by (auto simp add: dict_member)
qed

lemma DiffPlanCache_present:
  assumes "distinct (map fst new_plancache)"
    and "DiffPlanCache chk new_plancache old_plancache interval = Inr d"
    and "map_of new_plancache k = Some n"
    and "included old_plancache k n"
  shows "\<exists>e. entry_metrics chk old_plancache interval k n = Inr e \<and> map_of d k = Some e"
proof -
  from assms(3) have "(k, n) \<in> set new_plancache" by (rule map_of_SomeD)
  from loop_present [OF assms(2) [unfolded DiffPlanCache_def] assms(1) this assms(4)]
  show ?thesis .
qed

section \<open>The poll cycle\<close>

lemma sum_dict_values:
  assumes "distinct (map fst d)"
  shows "sum_list (map (\<lambda>(key, pe). f pe) d) = (\<Sum>k \<in> fst ` set d. f (the (map_of d k)))"
  using assms
proof (induction d)
  case Nil
  show ?case by simp
next
  case (Cons it d)
  obtain key pe where it: "it = (key, pe)" by (cases it)
  with Cons.prems have fresh: "key \<notin> fst ` set d" and dist: "distinct (map fst d)"
    by auto
  have "(\<Sum>k \<in> fst ` set d. f (the (map_of (it # d) k)))
      = (\<Sum>k \<in> fst ` set d. f (the (map_of d k)))"
  proof (rule sum.cong)
    fix k
    assume "k \<in> fst ` set d"
    with fresh have "k \<noteq> key" by auto
    with it show "f (the (map_of (it # d) k)) = f (the (map_of d k))" by simp
  qed simp
  with fresh it Cons.IH [OF dist] show ?case by simp
qed

lemma rows_to_dict_distinct:
  "distinct (map fst d) \<Longrightarrow> distinct (map fst (rows_to_dict rows d))"
  by (induction rows arbitrary: d) (simp_all add: distinct_update)

lemma GetPlanCache_distinct:
  "GetPlanCache conn = Inr snapshot \<Longrightarrow> distinct (map fst snapshot)"
  by (auto simp add: GetPlanCache_def rows_to_dict_distinct split: sum.splits)

lemma DiffPlanCache_distinct:
  assumes "DiffPlanCache chk new_plancache old_plancache interval = Inr diff"
  shows "distinct (map fst diff)"
  using assms unfolding DiffPlanCache_def by (rule loop_distinct) simp

text \<open>
  The snapshots the poller holds are dictionaries: their keys are unique, at
  construction and after every poll.
\<close>

lemma DatabasePoller_init_distinct:
  "DatabasePoller_init conn t = Inr self \<Longrightarrow> distinct (map fst (plancache self))"
  by (auto simp add: DatabasePoller_init_def GetPlanCache_distinct split: sum.splits)

lemma poll_keeps_distinct:
  assumes "distinct (map fst (plancache self))"
  shows "distinct (map fst (plancache (poller (poll chk pyfloat self conn))))"
proof (cases "GetPlanCache conn")
  case (Inl err)
  with assms show ?thesis by (simp add: poll_def)
next
  case (Inr new_plancache)
  then have "distinct (map fst new_plancache)" by (rule GetPlanCache_distinct)
  with assms Inr show ?thesis
    by (simp add: poll_def Let_def split: sum.splits)
qed

lemma poll_fetch_failed:
  assumes "GetPlanCache conn = Inl err"
  shows "poll chk pyfloat self conn =
     \<lparr> poller = self,
       effects = [SetAlarmIn (update_interval self), ConnQuery GET_PLANCACHE_QUERY],
       raised = Some err \<rparr>"
  using assms by (simp add: poll_def)

lemma poll_diff_failed:
  assumes "GetPlanCache conn = Inr new_plancache"
    and "DiffPlanCache chk new_plancache (plancache self) (update_interval self) = Inl err"
  shows "poll chk pyfloat self conn =
     \<lparr> poller = self,
       effects = [SetAlarmIn (update_interval self), ConnQuery GET_PLANCACHE_QUERY],
       raised = Some err \<rparr>"
  using assms by (simp add: poll_def)

lemma poll_diffed:
  assumes "GetPlanCache conn = Inr new_plancache"
    and "DiffPlanCache chk new_plancache (plancache self) (update_interval self) = Inr diff"
  shows "\<exists>rest. effects (poll chk pyfloat self conn) =
       [SetAlarmIn (update_interval self), ConnQuery GET_PLANCACHE_QUERY,
        Emit_plancache_changed diff,
        Emit_cpu_util_changed (sum_list (map (\<lambda>(key, pe). CpuUtil pe) diff)),
        ConnGet TOTAL_SERVER_MEMORY_QUERY] @ rest
     \<and> (rest = [] \<and> raised (poll chk pyfloat self conn) \<noteq> None
          \<or> (\<exists>mem. rest = [Emit_mem_usage_changed mem])
              \<and> raised (poll chk pyfloat self conn) = None)
     \<and> poller (poll chk pyfloat self conn) = self \<lparr> plancache := new_plancache \<rparr>"
  using assms by (simp add: poll_def Let_def split: sum.splits)

lemma poll_returned:
  assumes "raised (poll chk pyfloat self conn) = None"
  shows "\<exists>new_plancache diff. GetPlanCache conn = Inr new_plancache
     \<and> DiffPlanCache chk new_plancache (plancache self) (update_interval self) = Inr diff"
  using assms by (simp add: poll_def Let_def split: sum.splits)

subsection \<open>The poll cycle on the example\<close>

lemma example_fetch: "GetPlanCache example_conn = Inr example_new"
  by (simp add: GetPlanCache_def example_conn_def example_rows_def example_new_def
      example_row_def GET_PLANCACHE_QUERY_def)

lemma example_fetch_bad_status: "GetPlanCache example_conn_bad_status = Inr example_new"
  by (simp add: GetPlanCache_def example_conn_bad_status_def example_rows_def example_new_def
      example_row_def GET_PLANCACHE_QUERY_def)

lemma example_status:
  "conn_get example_conn TOTAL_SERVER_MEMORY_QUERY = Inr \<lparr> Value = ''2048 MB'' \<rparr>"
  "conn_get example_conn_down TOTAL_SERVER_MEMORY_QUERY = Inr \<lparr> Value = ''2048 MB'' \<rparr>"
  "conn_get example_conn_bad_status TOTAL_SERVER_MEMORY_QUERY = Inr \<lparr> Value = ''unknown'' \<rparr>"
  by (simp_all add: example_conn_def example_conn_down_def example_conn_bad_status_def)

lemma example_float_parsed:
  "example_float (split_space_first ''2048 MB'') = Inr 2048"
  "example_float (split_space_first ''unknown'') = Inl ValueError"
  by (simp_all add: example_float_def split_space_first_def)

lemma example_poller_fields:
  "update_interval example_poller = 5"
  "plancache example_poller = example_old"
  "update_interval example_poller_same = 5"
  "plancache example_poller_same = example_new"
  "example_poller \<lparr> plancache := example_new \<rparr> = example_poller_same"
  "example_poller_same \<lparr> plancache := example_new \<rparr> = example_poller_same"
  by (simp_all add: example_poller_def example_poller_same_def)

lemma example_cpu_sum:
  "sum_list (map (\<lambda>(key, pe). CpuUtil pe) example_diff) = 49 / 100"
  by (simp add: example_diff_def example_metrics_def)

lemma example_poll:
  "poll Some example_float example_poller example_conn =
     \<lparr> poller = example_poller_same,
       effects = [SetAlarmIn 5, ConnQuery GET_PLANCACHE_QUERY,
                  Emit_plancache_changed example_diff, Emit_cpu_util_changed (49 / 100),
                  ConnGet TOTAL_SERVER_MEMORY_QUERY, Emit_mem_usage_changed 2048],
       raised = None \<rparr>"
  by (simp add: poll_def example_fetch example_poller_fields example_diff_computed
      example_cpu_sum example_status example_float_parsed)

lemma example_poll_same:
  "poll Some example_float example_poller_same example_conn =
     \<lparr> poller = example_poller_same,
       effects = [SetAlarmIn 5, ConnQuery GET_PLANCACHE_QUERY,
                  Emit_plancache_changed [], Emit_cpu_util_changed 0,
                  ConnGet TOTAL_SERVER_MEMORY_QUERY, Emit_mem_usage_changed 2048],
       raised = None \<rparr>"
proof -
  have "distinct (map fst example_new)" by (simp add: example_new_def)
  then have "DiffPlanCache Some example_new example_new 5 = Inr []"
    by (simp add: DiffPlanCache_def loop_all_excluded dict_member included_known)
  then show ?thesis
    by (simp add: poll_def example_fetch example_poller_fields example_status
        example_float_parsed)
qed

lemma example_poll_down:
  "poll Some example_float example_poller example_conn_down =
     \<lparr> poller = example_poller,
       effects = [SetAlarmIn 5, ConnQuery GET_PLANCACHE_QUERY],
       raised = Some QueryError \<rparr>"
proof -
  have "GetPlanCache example_conn_down = Inl QueryError"
    by (simp add: GetPlanCache_def example_conn_down_def)
  then show ?thesis
    by (simp add: poll_def example_poller_fields)
qed

lemma example_poll_bad_status:
  "poll Some example_float example_poller example_conn_bad_status =
     \<lparr> poller = example_poller_same,
       effects = [SetAlarmIn 5, ConnQuery GET_PLANCACHE_QUERY,
                  Emit_plancache_changed example_diff, Emit_cpu_util_changed (49 / 100),
                  ConnGet TOTAL_SERVER_MEMORY_QUERY],
       raised = Some ValueError \<rparr>"
  by (simp add: poll_def example_fetch_bad_status example_poller_fields example_diff_computed
      example_cpu_sum example_status example_float_parsed)

section \<open>The claims\<close>

text \<open>
  C1. A plan identity that both snapshots have, and whose commit counter has not grown
  (new minus old is zero or negative, the latter after a reset), is not a key of the
  dictionary \<open>DiffPlanCache\<close> returns.
\<close>

theorem commit_filter:
  assumes "distinct (map fst new_plancache)"
    and "map_of new_plancache k = Some n_ent"
    and "map_of old_plancache k = Some o_ent"
    and "commits n_ent - commits o_ent \<le> 0"
    and "DiffPlanCache chk new_plancache old_plancache interval = Inr diff"
  shows "map_of diff k = None"
proof -
  have "\<forall>n. (k, n) \<in> set new_plancache \<longrightarrow> \<not> included old_plancache k n"
  proof (intro allI impI)
    fix n
    assume "(k, n) \<in> set new_plancache"
    with assms(1) have "map_of new_plancache k = Some n" by (rule dict_member)
    with assms(2) have "n = n_ent" by simp
    with assms(3,4) show "\<not> included old_plancache k n" by (simp add: included_known)
  qed
  with assms(5) have "map_of diff k = map_of [] k"
    unfolding DiffPlanCache_def by (rule loop_excluded)
  then show ?thesis by simp
qed

theorem commit_filter_witness:
  "distinct (map fst example_new)
   \<and> map_of example_new ''C'' = Some (example_row ''C'' 5 50 500 20 1000 400)
   \<and> map_of example_old ''C'' = Some (example_row ''C'' 20 200 2000 80 4000 1600)
   \<and> commits (example_row ''C'' 5 50 500 20 1000 400)
       - commits (example_row ''C'' 20 200 2000 80 4000 1600) \<le> 0
   \<and> DiffPlanCache Some example_new example_old 5 = Inr example_diff
   \<and> map_of example_diff ''C'' = None"
proof -
  have h1: "distinct (map fst example_new)"
    by (simp add: example_new_def)
  have h2: "map_of example_new ''C'' = Some (example_row ''C'' 5 50 500 20 1000 400)"
    by (simp add: example_new_def)
  have h3: "map_of example_old ''C'' = Some (example_row ''C'' 20 200 2000 80 4000 1600)"
    by (simp add: example_old_def)
  have h4: "commits (example_row ''C'' 5 50 500 20 1000 400)
       - commits (example_row ''C'' 20 200 2000 80 4000 1600) \<le> 0"
    by (simp add: example_row_def)
  note h5 = example_diff_computed
  from commit_filter [OF h1 h2 h3 h4 h5] h1 h2 h3 h4 h5 show ?thesis by simp
qed

text \<open>
  C10. The diff of a snapshot with itself is the empty dictionary, whatever the interval:
  every key is known to the old snapshot and its commit counter has not moved, so
  nothing is normalised and nothing can raise.
\<close>

theorem diff_with_itself_is_empty:
  assumes "distinct (map fst snapshot)"
  shows "DiffPlanCache chk snapshot snapshot interval = Inr []"
  unfolding DiffPlanCache_def
proof (rule loop_all_excluded)
  fix k n
  assume "(k, n) \<in> set snapshot"
  with assms have "map_of snapshot k = Some n" by (rule dict_member)
  then show "\<not> included snapshot k n" by (simp add: included_known)
qed

theorem diff_with_itself_is_empty_witness:
  "distinct (map fst example_new) \<and> DiffPlanCache Some example_new example_new 5 = Inr []"
proof -
  have h: "distinct (map fst example_new)"
    by (simp add: example_new_def)
  from diff_with_itself_is_empty [OF h] h show ?thesis by simp
qed

text \<open>
  C2. A plan identity that the new snapshot has and the old one has not: with a commit
  counter of zero it is not a key of the returned dictionary; with a positive commit
  counter (and a positive interval, and a column check that returns its argument)
  \<open>DiffPlanCache\<close> returns a dictionary that has the key, and the record stored there
  is built from the raw counters of the new entry, as if the earlier values were zero.
\<close>

theorem new_plan_entry:
  assumes "distinct (map fst new_plancache)"
    and "map_of new_plancache k = Some n_ent"
    and "map_of old_plancache k = None"
  shows "(commits n_ent = 0 \<longrightarrow>
            (\<forall>diff. DiffPlanCache chk new_plancache old_plancache interval = Inr diff
               \<longrightarrow> map_of diff k = None))
       \<and> (0 < commits n_ent \<longrightarrow> 0 < interval \<longrightarrow> returns_its_argument chk \<longrightarrow>
            (\<exists>diff. DiffPlanCache chk new_plancache old_plancache interval = Inr diff
               \<and> map_of diff k = Some
                   \<lparr> Database = database_name n_ent, Query = query_text n_ent,
                     Executions_sec = real_of_int (commits n_ent) / interval,
                     RowCount_sec = real_of_int (rowcount n_ent) / interval,
                     CpuUtil = real_of_int (cpu_time n_ent) / 1000 / interval,
                     ExecutionTime_query =
                       real_of_int (execution_time n_ent) / real_of_int (commits n_ent),
                     Memory_query =
                       real_of_int (memory_use n_ent) / real_of_int (commits n_ent),
                     QueuedTime_query =
                       real_of_int (queued_time n_ent) / real_of_int (commits n_ent) \<rparr>))"
proof (intro conjI impI allI)
  fix diff
  assume zero: "commits n_ent = 0"
    and ret: "DiffPlanCache chk new_plancache old_plancache interval = Inr diff"
  have "\<forall>n. (k, n) \<in> set new_plancache \<longrightarrow> \<not> included old_plancache k n"
  proof (intro allI impI)
    fix n
    assume "(k, n) \<in> set new_plancache"
    with assms(1) have "map_of new_plancache k = Some n" by (rule dict_member)
    with assms(2) have "n = n_ent" by simp
    with assms(3) zero show "\<not> included old_plancache k n" by (simp add: included_unknown)
  qed
  with ret have "map_of diff k = map_of [] k"
    unfolding DiffPlanCache_def by (rule loop_excluded)
  then show "map_of diff k = None" by simp
next
  assume pos: "0 < commits n_ent" and ival: "0 < interval" and chk: "returns_its_argument chk"
  from ival have "interval \<noteq> 0" by simp
  from DiffPlanCache_returns [OF this chk] obtain diff where
    ret: "DiffPlanCache chk new_plancache old_plancache interval = Inr diff" ..
  from assms(3) pos have "included old_plancache k n_ent" by (simp add: included_unknown)
  from DiffPlanCache_present [OF assms(1) ret assms(2) this] obtain e where
    e: "entry_metrics chk old_plancache interval k n_ent = Inr e" and "map_of diff k = Some e"
    by auto
  moreover from e assms(3) have "NormalizeDiffPlanCacheEntry chk interval
      (database_name n_ent) (query_text n_ent) (commits n_ent) (rowcount n_ent)
      (cpu_time n_ent) (execution_time n_ent) (memory_use n_ent) (queued_time n_ent) = Inr e"
    by (simp add: entry_metrics_def)
  note Normalize_returned [OF this chk]
  ultimately show "\<exists>diff. DiffPlanCache chk new_plancache old_plancache interval = Inr diff
               \<and> map_of diff k = Some
                   \<lparr> Database = database_name n_ent, Query = query_text n_ent,
                     Executions_sec = real_of_int (commits n_ent) / interval,
                     RowCount_sec = real_of_int (rowcount n_ent) / interval,
                     CpuUtil = real_of_int (cpu_time n_ent) / 1000 / interval,
                     ExecutionTime_query =
                       real_of_int (execution_time n_ent) / real_of_int (commits n_ent),
                     Memory_query =
                       real_of_int (memory_use n_ent) / real_of_int (commits n_ent),
                     QueuedTime_query =
                       real_of_int (queued_time n_ent) / real_of_int (commits n_ent) \<rparr>"
    using ret by auto
qed

theorem new_plan_entry_witness:
  "distinct (map fst example_new)
   \<and> map_of example_new ''B'' = Some (example_row ''B'' 0 0 0 0 0 0)
   \<and> map_of example_old ''B'' = None
   \<and> commits (example_row ''B'' 0 0 0 0 0 0) = 0
   \<and> DiffPlanCache Some example_new example_old 5 = Inr example_diff
   \<and> map_of example_diff ''B'' = None
   \<and> map_of example_new ''N'' = Some (example_row ''N'' 4 8 400 40 2000 1200)
   \<and> map_of example_old ''N'' = None
   \<and> 0 < commits (example_row ''N'' 4 8 400 40 2000 1200)
   \<and> (0::real) < 5
   \<and> returns_its_argument Some
   \<and> map_of example_diff ''N'' = Some (example_metrics (4/5) (8/5) (2/5) 100 300 10)"
proof -
  have h1: "distinct (map fst example_new)"
    by (simp add: example_new_def)
  have b2: "map_of example_new ''B'' = Some (example_row ''B'' 0 0 0 0 0 0)"
    by (simp add: example_new_def)
  have b3: "map_of example_old ''B'' = None"
    by (simp add: example_old_def)
  have b4: "commits (example_row ''B'' 0 0 0 0 0 0) = 0"
    by (simp add: example_row_def)
  have n2: "map_of example_new ''N'' = Some (example_row ''N'' 4 8 400 40 2000 1200)"
    by (simp add: example_new_def)
  have n3: "map_of example_old ''N'' = None"
    by (simp add: example_old_def)
  have n4: "0 < commits (example_row ''N'' 4 8 400 40 2000 1200)"
    by (simp add: example_row_def)
  have ival: "(0::real) < 5" by simp
  have chk: "returns_its_argument Some"
    by (simp add: returns_its_argument_def)
  note ret = example_diff_computed
  from new_plan_entry [OF h1 b2 b3, of Some 5] b4 ret
  have absent: "map_of example_diff ''B'' = None" by simp
  from new_plan_entry [OF h1 n2 n3, of Some 5] n4 ival chk ret
  have present: "map_of example_diff ''N'' = Some (example_metrics (4/5) (8/5) (2/5) 100 300 10)"
    by (simp add: example_row_def example_metrics_def)
  from h1 b2 b3 b4 ret absent n2 n3 n4 ival chk present show ?thesis by simp
qed

text \<open>
  C3. The rate fields of every record in the returned dictionary: executions per second
  is the commit delta over the interval, rows per second the row count delta over the
  interval, and the CPU utilisation the CPU time delta over 1000 over the interval. The
  delta is the raw counter of the new entry for a key the old snapshot does not have,
  and new minus old otherwise. (Floats are reals here, so the equalities are exact.)
\<close>

theorem rate_fields:
  assumes "distinct (map fst new_plancache)"
    and "DiffPlanCache chk new_plancache old_plancache interval = Inr diff"
    and "map_of diff k = Some e"
    and "returns_its_argument chk"
  shows "\<exists>n_ent. map_of new_plancache k = Some n_ent \<and>
     (case map_of old_plancache k of
        None \<Rightarrow>
          Executions_sec e = real_of_int (commits n_ent) / interval
          \<and> RowCount_sec e = real_of_int (rowcount n_ent) / interval
          \<and> CpuUtil e = real_of_int (cpu_time n_ent) / 1000 / interval
      | Some o_ent \<Rightarrow>
          Executions_sec e = real_of_int (commits n_ent - commits o_ent) / interval
          \<and> RowCount_sec e = real_of_int (rowcount n_ent - rowcount o_ent) / interval
          \<and> CpuUtil e = real_of_int (cpu_time n_ent - cpu_time o_ent) / 1000 / interval)"
proof -
  from DiffPlanCache_origin [OF assms(1-3)] obtain n_ent where
    n: "map_of new_plancache k = Some n_ent"
    and e: "entry_metrics chk old_plancache interval k n_ent = Inr e" by auto
  show ?thesis
  proof (cases "map_of old_plancache k")
    case None
    with e have "NormalizeDiffPlanCacheEntry chk interval
      (database_name n_ent) (query_text n_ent) (commits n_ent) (rowcount n_ent)
      (cpu_time n_ent) (execution_time n_ent) (memory_use n_ent) (queued_time n_ent) = Inr e"
      by (simp add: entry_metrics_def)
    from Normalize_returned [OF this assms(4)] n None show ?thesis by simp
  next
    case (Some o_ent)
    with e have "NormalizeDiffPlanCacheEntry chk interval
      (database_name n_ent) (query_text n_ent)
      (commits n_ent - commits o_ent) (rowcount n_ent - rowcount o_ent)
      (cpu_time n_ent - cpu_time o_ent) (execution_time n_ent - execution_time o_ent)
      (memory_use n_ent - memory_use o_ent) (queued_time n_ent - queued_time o_ent) = Inr e"
      by (simp add: entry_metrics_def)
    from Normalize_returned [OF this assms(4)] n Some show ?thesis by simp
  qed
qed

theorem rate_fields_witness:
  "distinct (map fst example_new)
   \<and> DiffPlanCache Some example_new example_old 5 = Inr example_diff
   \<and> map_of example_diff ''A'' = Some (example_metrics 1 10 (1/10) 200 40 2)
   \<and> returns_its_argument Some
   \<and> map_of example_new ''A'' = Some (example_row ''A'' 15 150 2000 50 2500 1000)
   \<and> map_of example_old ''A'' = Some (example_row ''A'' 10 100 1000 40 2000 800)
   \<and> Executions_sec (example_metrics 1 10 (1/10) 200 40 2) = real_of_int (15 - 10) / 5
   \<and> RowCount_sec (example_metrics 1 10 (1/10) 200 40 2) = real_of_int (150 - 100) / 5
   \<and> CpuUtil (example_metrics 1 10 (1/10) 200 40 2) = real_of_int (2500 - 2000) / 1000 / 5"
proof -
  have h1: "distinct (map fst example_new)"
    by (simp add: example_new_def)
  note h2 = example_diff_computed
  have h3: "map_of example_diff ''A'' = Some (example_metrics 1 10 (1/10) 200 40 2)"
    by (simp add: example_diff_def)
  have h4: "returns_its_argument Some"
    by (simp add: returns_its_argument_def)
  have n: "map_of example_new ''A'' = Some (example_row ''A'' 15 150 2000 50 2500 1000)"
    by (simp add: example_new_def)
  have o: "map_of example_old ''A'' = Some (example_row ''A'' 10 100 1000 40 2000 800)"
    by (simp add: example_old_def)
  from rate_fields [OF h1 h2 h3 h4] n o
  have "Executions_sec (example_metrics 1 10 (1/10) 200 40 2) = real_of_int (15 - 10) / 5
   \<and> RowCount_sec (example_metrics 1 10 (1/10) 200 40 2) = real_of_int (150 - 100) / 5
   \<and> CpuUtil (example_metrics 1 10 (1/10) 200 40 2) = real_of_int (2500 - 2000) / 1000 / 5"
    by (simp add: example_row_def)
  with h1 h2 h3 h4 n o show ?thesis by simp
qed

text \<open>
  C4. With a positive interval \<open>DiffPlanCache\<close> never raises \<open>ZeroDivisionError\<close>; and
  (when the column check returns its argument) it returns a dictionary in which every
  record has a strictly positive commit delta as the divisor of its three per-query
  averages: execution time, memory and queued time deltas over the commit delta.
\<close>

theorem per_query_averages:
  assumes "0 < interval"
    and "distinct (map fst new_plancache)"
  shows "DiffPlanCache chk new_plancache old_plancache interval \<noteq> Inl ZeroDivisionError
     \<and> (returns_its_argument chk \<longrightarrow>
          (\<exists>diff. DiffPlanCache chk new_plancache old_plancache interval = Inr diff \<and>
             (\<forall>k e. map_of diff k = Some e \<longrightarrow>
                (\<exists>n_ent. map_of new_plancache k = Some n_ent \<and>
                   (case map_of old_plancache k of
                      None \<Rightarrow>
                        0 < commits n_ent
                        \<and> ExecutionTime_query e =
                            real_of_int (execution_time n_ent) / real_of_int (commits n_ent)
                        \<and> Memory_query e =
                            real_of_int (memory_use n_ent) / real_of_int (commits n_ent)
                        \<and> QueuedTime_query e =
                            real_of_int (queued_time n_ent) / real_of_int (commits n_ent)
                    | Some o_ent \<Rightarrow>
                        0 < commits n_ent - commits o_ent
                        \<and> ExecutionTime_query e =
                            real_of_int (execution_time n_ent - execution_time o_ent)
                              / real_of_int (commits n_ent - commits o_ent)
                        \<and> Memory_query e =
                            real_of_int (memory_use n_ent - memory_use o_ent)
                              / real_of_int (commits n_ent - commits o_ent)
                        \<and> QueuedTime_query e =
                            real_of_int (queued_time n_ent - queued_time o_ent)
                              / real_of_int (commits n_ent - commits o_ent))))))"
proof (intro conjI impI)
  from assms(1) have "interval \<noteq> 0" by simp
  then show "DiffPlanCache chk new_plancache old_plancache interval \<noteq> Inl ZeroDivisionError"
    unfolding DiffPlanCache_def by (rule loop_no_zero_division)
next
  assume chk: "returns_its_argument chk"
  from assms(1) have "interval \<noteq> 0" by simp
  from DiffPlanCache_returns [OF this chk] obtain diff where
    ret: "DiffPlanCache chk new_plancache old_plancache interval = Inr diff" ..
  have "\<exists>n_ent. map_of new_plancache k = Some n_ent \<and>
                   (case map_of old_plancache k of
                      None \<Rightarrow>
                        0 < commits n_ent
                        \<and> ExecutionTime_query e =
                            real_of_int (execution_time n_ent) / real_of_int (commits n_ent)
                        \<and> Memory_query e =
                            real_of_int (memory_use n_ent) / real_of_int (commits n_ent)
                        \<and> QueuedTime_query e =
                            real_of_int (queued_time n_ent) / real_of_int (commits n_ent)
                    | Some o_ent \<Rightarrow>
                        0 < commits n_ent - commits o_ent
                        \<and> ExecutionTime_query e =
                            real_of_int (execution_time n_ent - execution_time o_ent)
                              / real_of_int (commits n_ent - commits o_ent)
                        \<and> Memory_query e =
                            real_of_int (memory_use n_ent - memory_use o_ent)
                              / real_of_int (commits n_ent - commits o_ent)
                        \<and> QueuedTime_query e =
                            real_of_int (queued_time n_ent - queued_time o_ent)
                              / real_of_int (commits n_ent - commits o_ent))"
    if ent: "map_of diff k = Some e" for k e
  proof -
    from DiffPlanCache_origin [OF assms(2) ret ent] obtain n_ent where
      n: "map_of new_plancache k = Some n_ent"
      and inc: "included old_plancache k n_ent"
      and e: "entry_metrics chk old_plancache interval k n_ent = Inr e" by auto
    show ?thesis
    proof (cases "map_of old_plancache k")
      case None
      with e have "NormalizeDiffPlanCacheEntry chk interval
        (database_name n_ent) (query_text n_ent) (commits n_ent) (rowcount n_ent)
        (cpu_time n_ent) (execution_time n_ent) (memory_use n_ent) (queued_time n_ent) = Inr e"
        by (simp add: entry_metrics_def)
      from Normalize_returned [OF this chk] n None inc show ?thesis
        by (simp add: included_unknown)
    next
      case (Some o_ent)
      with e have "NormalizeDiffPlanCacheEntry chk interval
        (database_name n_ent) (query_text n_ent)
        (commits n_ent - commits o_ent) (rowcount n_ent - rowcount o_ent)
        (cpu_time n_ent - cpu_time o_ent) (execution_time n_ent - execution_time o_ent)
        (memory_use n_ent - memory_use o_ent) (queued_time n_ent - queued_time o_ent) = Inr e"
        by (simp add: entry_metrics_def)
      from Normalize_returned [OF this chk] n Some inc show ?thesis
        by (simp add: included_known)
    qed
  qed
  with ret show "\<exists>diff. DiffPlanCache chk new_plancache old_plancache interval = Inr diff \<and>
             (\<forall>k e. map_of diff k = Some e \<longrightarrow>
                (\<exists>n_ent. map_of new_plancache k = Some n_ent \<and>
                   (case map_of old_plancache k of
                      None \<Rightarrow>
                        0 < commits n_ent
                        \<and> ExecutionTime_query e =
                            real_of_int (execution_time n_ent) / real_of_int (commits n_ent)
                        \<and> Memory_query e =
                            real_of_int (memory_use n_ent) / real_of_int (commits n_ent)
                        \<and> QueuedTime_query e =
                            real_of_int (queued_time n_ent) / real_of_int (commits n_ent)
                    | Some o_ent \<Rightarrow>
                        0 < commits n_ent - commits o_ent
                        \<and> ExecutionTime_query e =
                            real_of_int (execution_time n_ent - execution_time o_ent)
                              / real_of_int (commits n_ent - commits o_ent)
                        \<and> Memory_query e =
                            real_of_int (memory_use n_ent - memory_use o_ent)
                              / real_of_int (commits n_ent - commits o_ent)
                        \<and> QueuedTime_query e =
                            real_of_int (queued_time n_ent - queued_time o_ent)
                              / real_of_int (commits n_ent - commits o_ent))))"
    by blast
qed

theorem per_query_averages_witness:
  "(0::real) < 5
   \<and> distinct (map fst example_new)
   \<and> returns_its_argument Some
   \<and> DiffPlanCache Some example_new example_old 5 = Inr example_diff
   \<and> DiffPlanCache Some example_new example_old 5 \<noteq> Inl ZeroDivisionError
   \<and> map_of example_diff ''P'' =
        Some (example_metrics (2/5) (-2) (-(1/100)) (-500) (-100) (-10))
   \<and> map_of example_new ''P'' = Some (example_row ''P'' 12 90 4000 30 50 700)
   \<and> map_of example_old ''P'' = Some (example_row ''P'' 10 100 5000 50 100 900)
   \<and> (0::int) < 12 - 10
   \<and> ExecutionTime_query (example_metrics (2/5) (-2) (-(1/100)) (-500) (-100) (-10))
        = real_of_int (4000 - 5000) / real_of_int (12 - 10)
   \<and> Memory_query (example_metrics (2/5) (-2) (-(1/100)) (-500) (-100) (-10))
        = real_of_int (700 - 900) / real_of_int (12 - 10)
   \<and> QueuedTime_query (example_metrics (2/5) (-2) (-(1/100)) (-500) (-100) (-10))
        = real_of_int (30 - 50) / real_of_int (12 - 10)"
proof -
  have ival: "(0::real) < 5" by simp
  have h1: "distinct (map fst example_new)"
    by (simp add: example_new_def)
  have chk: "returns_its_argument Some"
    by (simp add: returns_its_argument_def)
  note ret = example_diff_computed
  have ent: "map_of example_diff ''P'' =
        Some (example_metrics (2/5) (-2) (-(1/100)) (-500) (-100) (-10))"
    by (simp add: example_diff_def)
  have n: "map_of example_new ''P'' = Some (example_row ''P'' 12 90 4000 30 50 700)"
    by (simp add: example_new_def)
  have o: "map_of example_old ''P'' = Some (example_row ''P'' 10 100 5000 50 100 900)"
    by (simp add: example_old_def)
  note claim = per_query_averages [OF ival h1, of Some example_old]
  from claim have nozero: "DiffPlanCache Some example_new example_old 5 \<noteq> Inl ZeroDivisionError"
    by simp
  note entries = claim [THEN conjunct2, THEN mp, OF chk, unfolded ret, simplified]
  from entries [rule_format, OF ent] n o
  have "(0::int) < 12 - 10
   \<and> ExecutionTime_query (example_metrics (2/5) (-2) (-(1/100)) (-500) (-100) (-10))
        = real_of_int (4000 - 5000) / real_of_int (12 - 10)
   \<and> Memory_query (example_metrics (2/5) (-2) (-(1/100)) (-500) (-100) (-10))
        = real_of_int (700 - 900) / real_of_int (12 - 10)
   \<and> QueuedTime_query (example_metrics (2/5) (-2) (-(1/100)) (-500) (-100) (-10))
        = real_of_int (30 - 50) / real_of_int (12 - 10)"
    by (simp add: example_row_def)
  with ival h1 chk ret nozero ent n o show ?thesis by simp
qed

text \<open>
  C6. A plan identity that both snapshots have, with a positive commit delta: its
  record is in the returned dictionary, the deltas of the other counters are new minus
  old as they are, and a counter that went down gives a negative rate or a negative
  per-query average in the record (nothing is clamped, the entry is not dropped).
\<close>

theorem negative_deltas_kept:
  assumes "distinct (map fst new_plancache)"
    and "map_of new_plancache k = Some n_ent"
    and "map_of old_plancache k = Some o_ent"
    and "0 < commits n_ent - commits o_ent"
    and "0 < interval"
    and "returns_its_argument chk"
  shows "\<exists>diff e. DiffPlanCache chk new_plancache old_plancache interval = Inr diff
     \<and> map_of diff k = Some e
     \<and> RowCount_sec e = real_of_int (rowcount n_ent - rowcount o_ent) / interval
     \<and> CpuUtil e = real_of_int (cpu_time n_ent - cpu_time o_ent) / 1000 / interval
     \<and> ExecutionTime_query e =
         real_of_int (execution_time n_ent - execution_time o_ent)
           / real_of_int (commits n_ent - commits o_ent)
     \<and> Memory_query e =
         real_of_int (memory_use n_ent - memory_use o_ent)
           / real_of_int (commits n_ent - commits o_ent)
     \<and> QueuedTime_query e =
         real_of_int (queued_time n_ent - queued_time o_ent)
           / real_of_int (commits n_ent - commits o_ent)
     \<and> (rowcount n_ent < rowcount o_ent \<longrightarrow> RowCount_sec e < 0)
     \<and> (cpu_time n_ent < cpu_time o_ent \<longrightarrow> CpuUtil e < 0)
     \<and> (execution_time n_ent < execution_time o_ent \<longrightarrow> ExecutionTime_query e < 0)
     \<and> (memory_use n_ent < memory_use o_ent \<longrightarrow> Memory_query e < 0)
     \<and> (queued_time n_ent < queued_time o_ent \<longrightarrow> QueuedTime_query e < 0)"
proof -
  from assms(5) have "interval \<noteq> 0" by simp
  from DiffPlanCache_returns [OF this assms(6)] obtain diff where
    ret: "DiffPlanCache chk new_plancache old_plancache interval = Inr diff" ..
  from assms(3,4) have "included old_plancache k n_ent" by (simp add: included_known)
  from DiffPlanCache_present [OF assms(1) ret assms(2) this] obtain e where
    e: "entry_metrics chk old_plancache interval k n_ent = Inr e"
    and ent: "map_of diff k = Some e"
    by auto
  from e assms(3) have "NormalizeDiffPlanCacheEntry chk interval
      (database_name n_ent) (query_text n_ent)
      (commits n_ent - commits o_ent) (rowcount n_ent - rowcount o_ent)
      (cpu_time n_ent - cpu_time o_ent) (execution_time n_ent - execution_time o_ent)
      (memory_use n_ent - memory_use o_ent) (queued_time n_ent - queued_time o_ent) = Inr e"
    by (simp add: entry_metrics_def)
  note fields = Normalize_returned [OF this assms(6)]
  from assms(4) have cpos: "0 < real_of_int (commits n_ent - commits o_ent)" by simp
  have rate: "real_of_int (a - b) / interval < 0" if "a < b" for a b :: int
    using that assms(5) by (simp add: divide_neg_pos)
  have cpu: "real_of_int (a - b) / 1000 / interval < 0" if "a < b" for a b :: int
    using that assms(5) by (simp add: divide_neg_pos)
  have avg: "real_of_int (a - b) / real_of_int (commits n_ent - commits o_ent) < 0"
    if "a < b" for a b :: int
    using that cpos by (simp add: divide_neg_pos)
  have "RowCount_sec e = real_of_int (rowcount n_ent - rowcount o_ent) / interval"
    and "CpuUtil e = real_of_int (cpu_time n_ent - cpu_time o_ent) / 1000 / interval"
    and "ExecutionTime_query e =
         real_of_int (execution_time n_ent - execution_time o_ent)
           / real_of_int (commits n_ent - commits o_ent)"
    and "Memory_query e =
         real_of_int (memory_use n_ent - memory_use o_ent)
           / real_of_int (commits n_ent - commits o_ent)"
    and "QueuedTime_query e =
         real_of_int (queued_time n_ent - queued_time o_ent)
           / real_of_int (commits n_ent - commits o_ent)"
    by (simp_all add: fields)
  with ret ent rate cpu avg show ?thesis by auto
qed

theorem negative_deltas_kept_witness:
  "distinct (map fst example_new)
   \<and> map_of example_new ''P'' = Some (example_row ''P'' 12 90 4000 30 50 700)
   \<and> map_of example_old ''P'' = Some (example_row ''P'' 10 100 5000 50 100 900)
   \<and> 0 < commits (example_row ''P'' 12 90 4000 30 50 700)
         - commits (example_row ''P'' 10 100 5000 50 100 900)
   \<and> (0::real) < 5
   \<and> returns_its_argument Some
   \<and> rowcount (example_row ''P'' 12 90 4000 30 50 700)
       < rowcount (example_row ''P'' 10 100 5000 50 100 900)
   \<and> queued_time (example_row ''P'' 12 90 4000 30 50 700)
       < queued_time (example_row ''P'' 10 100 5000 50 100 900)
   \<and> (\<exists>e. map_of example_diff ''P'' = Some e
        \<and> RowCount_sec e = - 2 \<and> RowCount_sec e < 0
        \<and> QueuedTime_query e = - 10 \<and> QueuedTime_query e < 0)"
proof -
  have h1: "distinct (map fst example_new)"
    by (simp add: example_new_def)
  have h2: "map_of example_new ''P'' = Some (example_row ''P'' 12 90 4000 30 50 700)"
    by (simp add: example_new_def)
  have h3: "map_of example_old ''P'' = Some (example_row ''P'' 10 100 5000 50 100 900)"
    by (simp add: example_old_def)
  have h4: "0 < commits (example_row ''P'' 12 90 4000 30 50 700)
         - commits (example_row ''P'' 10 100 5000 50 100 900)"
    by (simp add: example_row_def)
  have h5: "(0::real) < 5" by simp
  have h6: "returns_its_argument Some"
    by (simp add: returns_its_argument_def)
  have r: "rowcount (example_row ''P'' 12 90 4000 30 50 700)
       < rowcount (example_row ''P'' 10 100 5000 50 100 900)"
    and q: "queued_time (example_row ''P'' 12 90 4000 30 50 700)
       < queued_time (example_row ''P'' 10 100 5000 50 100 900)"
    by (simp_all add: example_row_def)
  from negative_deltas_kept [OF h1 h2 h3 h4 h5 h6] obtain diff e where
    "DiffPlanCache Some example_new example_old 5 = Inr diff"
    and ent: "map_of diff ''P'' = Some e"
    and "RowCount_sec e = real_of_int (rowcount (example_row ''P'' 12 90 4000 30 50 700)
        - rowcount (example_row ''P'' 10 100 5000 50 100 900)) / 5"
    and "QueuedTime_query e =
        real_of_int (queued_time (example_row ''P'' 12 90 4000 30 50 700)
           - queued_time (example_row ''P'' 10 100 5000 50 100 900))
        / real_of_int (commits (example_row ''P'' 12 90 4000 30 50 700)
           - commits (example_row ''P'' 10 100 5000 50 100 900))"
    by blast
  then have "diff = example_diff" and "RowCount_sec e = - 2" and "QueuedTime_query e = - 10"
    by (simp_all add: example_diff_computed example_row_def)
  with ent have "\<exists>e. map_of example_diff ''P'' = Some e
        \<and> RowCount_sec e = - 2 \<and> RowCount_sec e < 0
        \<and> QueuedTime_query e = - 10 \<and> QueuedTime_query e < 0"
    by simp
  with h1 h2 h3 h4 h5 h6 r q show ?thesis by simp
qed

text \<open>
  C5. When \<open>poll\<close> returns (nothing was raised), the snapshot was fetched and diffed,
  and the values emitted as \<open>cpu_util_changed\<close> in the cycle are exactly one: the sum
  of \<open>CpuUtil\<close> over the keys of the diff of that cycle. With an empty diff it is 0.
\<close>

theorem cpu_util_aggregate:
  assumes "raised (poll chk pyfloat self conn) = None"
  shows "\<exists>new_plancache diff.
       GetPlanCache conn = Inr new_plancache
     \<and> DiffPlanCache chk new_plancache (plancache self) (update_interval self) = Inr diff
     \<and> (\<forall>v. Emit_cpu_util_changed v \<in> set (effects (poll chk pyfloat self conn))
            \<longleftrightarrow> v = (\<Sum>k \<in> fst ` set diff. CpuUtil (the (map_of diff k))))
     \<and> (diff = [] \<longrightarrow> Emit_cpu_util_changed 0 \<in> set (effects (poll chk pyfloat self conn)))"
proof -
  from poll_returned [OF assms] obtain new_plancache diff where
    fetch: "GetPlanCache conn = Inr new_plancache"
    and ret: "DiffPlanCache chk new_plancache (plancache self) (update_interval self) = Inr diff"
    by blast
  from DiffPlanCache_distinct [OF ret]
  have total: "sum_list (map (\<lambda>(key, pe). CpuUtil pe) diff)
      = (\<Sum>k \<in> fst ` set diff. CpuUtil (the (map_of diff k)))"
    by (rule sum_dict_values)
  from poll_diffed [OF fetch ret, of pyfloat] obtain rest where
    fx: "effects (poll chk pyfloat self conn) =
       [SetAlarmIn (update_interval self), ConnQuery GET_PLANCACHE_QUERY,
        Emit_plancache_changed diff,
        Emit_cpu_util_changed (sum_list (map (\<lambda>(key, pe). CpuUtil pe) diff)),
        ConnGet TOTAL_SERVER_MEMORY_QUERY] @ rest"
    and rest: "rest = [] \<or> (\<exists>mem. rest = [Emit_mem_usage_changed mem])"
    by blast
  from fx rest total
  have iff: "Emit_cpu_util_changed v \<in> set (effects (poll chk pyfloat self conn))
            \<longleftrightarrow> v = (\<Sum>k \<in> fst ` set diff. CpuUtil (the (map_of diff k)))" for v
    by auto
  from fx have "diff = [] \<longrightarrow> Emit_cpu_util_changed 0 \<in> set (effects (poll chk pyfloat self conn))"
    by simp
  with fetch ret iff show ?thesis by blast
qed

theorem cpu_util_aggregate_witness:
  "raised (poll Some example_float example_poller example_conn) = None
   \<and> GetPlanCache example_conn = Inr example_new
   \<and> DiffPlanCache Some example_new (plancache example_poller) (update_interval example_poller)
        = Inr example_diff
   \<and> (\<Sum>k \<in> fst ` set example_diff. CpuUtil (the (map_of example_diff k))) = 49 / 100
   \<and> Emit_cpu_util_changed (49 / 100)
        \<in> set (effects (poll Some example_float example_poller example_conn))
   \<and> Emit_cpu_util_changed (1 / 2)
        \<notin> set (effects (poll Some example_float example_poller example_conn))
   \<and> raised (poll Some example_float example_poller_same example_conn) = None
   \<and> DiffPlanCache Some example_new (plancache example_poller_same)
        (update_interval example_poller_same) = Inr []
   \<and> Emit_cpu_util_changed 0
        \<in> set (effects (poll Some example_float example_poller_same example_conn))"
proof -
  have ok: "raised (poll Some example_float example_poller example_conn) = None"
    by (simp add: example_poll)
  have ret: "DiffPlanCache Some example_new (plancache example_poller)
      (update_interval example_poller) = Inr example_diff"
    by (simp add: example_poller_fields example_diff_computed)
  have total: "(\<Sum>k \<in> fst ` set example_diff. CpuUtil (the (map_of example_diff k))) = 49 / 100"
    by (simp add: example_diff_def example_metrics_def)
  from cpu_util_aggregate [OF ok] example_fetch ret total
  have emitted: "Emit_cpu_util_changed v
        \<in> set (effects (poll Some example_float example_poller example_conn))
      \<longleftrightarrow> v = 49 / 100" for v
    by simp
  have ok': "raised (poll Some example_float example_poller_same example_conn) = None"
    by (simp add: example_poll_same)
  from cpu_util_aggregate [OF ok'] obtain diff where
    "DiffPlanCache Some example_new (plancache example_poller_same)
        (update_interval example_poller_same) = Inr diff"
    and "diff = [] \<longrightarrow> Emit_cpu_util_changed 0
        \<in> set (effects (poll Some example_float example_poller_same example_conn))"
    by (auto simp add: example_fetch)
  moreover have "distinct (map fst example_new)" by (simp add: example_new_def)
  then have "DiffPlanCache Some example_new (plancache example_poller_same)
        (update_interval example_poller_same) = Inr []"
    by (simp add: example_poller_fields DiffPlanCache_def loop_all_excluded dict_member
        included_known)
  ultimately have "DiffPlanCache Some example_new (plancache example_poller_same)
        (update_interval example_poller_same) = Inr []"
    and "Emit_cpu_util_changed 0
        \<in> set (effects (poll Some example_float example_poller_same example_conn))"
    by simp_all
  with ok example_fetch ret total emitted [of "49 / 100"] emitted [of "1 / 2"] ok'
  show ?thesis by simp
qed

text \<open>
  C7. When the plan cache query fails, the poller is left as it was (its retained
  snapshot with it), no signal is emitted in the cycle, and the error leaves \<open>poll\<close>.
\<close>

theorem fetch_failure_keeps_snapshot:
  assumes "conn_query conn GET_PLANCACHE_QUERY = Inl err"
  shows "poller (poll chk pyfloat self conn) = self
     \<and> filter is_emit (effects (poll chk pyfloat self conn)) = []
     \<and> raised (poll chk pyfloat self conn) = Some err"
proof -
  from assms have "GetPlanCache conn = Inl err"
    by (simp add: GetPlanCache_def)
  then show ?thesis
    by (simp add: poll_fetch_failed)
qed

theorem fetch_failure_keeps_snapshot_witness:
  "conn_query example_conn_down GET_PLANCACHE_QUERY = Inl QueryError
   \<and> poller (poll Some example_float example_poller example_conn_down) = example_poller
   \<and> plancache (poller (poll Some example_float example_poller example_conn_down)) = example_old
   \<and> filter is_emit (effects (poll Some example_float example_poller example_conn_down)) = []
   \<and> raised (poll Some example_float example_poller example_conn_down) = Some QueryError"
proof -
  have h: "conn_query example_conn_down GET_PLANCACHE_QUERY = Inl QueryError"
    by (simp add: example_conn_down_def)
  from fetch_failure_keeps_snapshot [OF h, of Some example_float example_poller] h
  show ?thesis by (simp add: example_poller_fields)
qed

text \<open>
  C8, as stated, fails in its second half. The connection \<open>example_conn_down\<close> fails
  the plan cache query and would answer the status query with \<open>2048 MB\<close>; the cycle
  ends at the failed fetch, the status is never asked for and \<open>mem_usage_changed\<close> is
  not emitted.
\<close>

theorem fetch_failure_blocks_memory_event_counterexample:
  "conn_query example_conn_down GET_PLANCACHE_QUERY = Inl QueryError
   \<and> conn_get example_conn_down TOTAL_SERVER_MEMORY_QUERY = Inr \<lparr> Value = ''2048 MB'' \<rparr>
   \<and> example_float (split_space_first ''2048 MB'') = Inr 2048
   \<and> effects (poll Some example_float example_poller example_conn_down)
        = [SetAlarmIn 5, ConnQuery GET_PLANCACHE_QUERY]
   \<and> Emit_mem_usage_changed 2048
        \<notin> set (effects (poll Some example_float example_poller example_conn_down))"
  by (simp add: example_poll_down example_status example_float_parsed)
    (simp add: example_conn_down_def)

text \<open>
  C8, amended. \<open>poll\<close> has no exception handling and runs its steps in one order:
  fetch, diff, \<open>plancache_changed\<close>, \<open>cpu_util_changed\<close>, memory status,
  \<open>mem_usage_changed\<close>. So once the fetch and the diff have succeeded, both plan cache
  signals are emitted whatever the memory status step does afterwards (also when it
  fails); and when the fetch or the diff fails, the cycle ends there with that error
  and emits nothing, \<open>mem_usage_changed\<close> included.
\<close>

theorem memory_failure_after_plancache_events:
  "(GetPlanCache conn = Inr new_plancache
      \<and> DiffPlanCache chk new_plancache (plancache self) (update_interval self) = Inr diff
      \<longrightarrow> Emit_plancache_changed diff \<in> set (effects (poll chk pyfloat self conn))
        \<and> Emit_cpu_util_changed (sum_list (map (\<lambda>(key, pe). CpuUtil pe) diff))
            \<in> set (effects (poll chk pyfloat self conn)))
   \<and> (GetPlanCache conn = Inl err
        \<or> GetPlanCache conn = Inr new_plancache
          \<and> DiffPlanCache chk new_plancache (plancache self) (update_interval self) = Inl err
      \<longrightarrow> filter is_emit (effects (poll chk pyfloat self conn)) = []
        \<and> raised (poll chk pyfloat self conn) = Some err)"
proof (intro conjI impI)
  assume "GetPlanCache conn = Inr new_plancache
      \<and> DiffPlanCache chk new_plancache (plancache self) (update_interval self) = Inr diff"
  then have fetch: "GetPlanCache conn = Inr new_plancache"
    and ret: "DiffPlanCache chk new_plancache (plancache self) (update_interval self) = Inr diff"
    by simp_all
  from poll_diffed [OF fetch ret, of pyfloat] obtain rest where
    fx: "effects (poll chk pyfloat self conn) =
       [SetAlarmIn (update_interval self), ConnQuery GET_PLANCACHE_QUERY,
        Emit_plancache_changed diff,
        Emit_cpu_util_changed (sum_list (map (\<lambda>(key, pe). CpuUtil pe) diff)),
        ConnGet TOTAL_SERVER_MEMORY_QUERY] @ rest"
    by blast
  from fx show "Emit_plancache_changed diff \<in> set (effects (poll chk pyfloat self conn))"
    by simp
  from fx show "Emit_cpu_util_changed (sum_list (map (\<lambda>(key, pe). CpuUtil pe) diff))
            \<in> set (effects (poll chk pyfloat self conn))"
    by simp
next
  assume failed: "GetPlanCache conn = Inl err
        \<or> GetPlanCache conn = Inr new_plancache
          \<and> DiffPlanCache chk new_plancache (plancache self) (update_interval self) = Inl err"
  then have "poll chk pyfloat self conn =
     \<lparr> poller = self,
       effects = [SetAlarmIn (update_interval self), ConnQuery GET_PLANCACHE_QUERY],
       raised = Some err \<rparr>"
    by (auto simp add: poll_fetch_failed poll_diff_failed)
  then show "filter is_emit (effects (poll chk pyfloat self conn)) = []"
    and "raised (poll chk pyfloat self conn) = Some err"
    by simp_all
qed

theorem memory_failure_after_plancache_events_witness:
  "GetPlanCache example_conn_bad_status = Inr example_new
   \<and> DiffPlanCache Some example_new (plancache example_poller) (update_interval example_poller)
        = Inr example_diff
   \<and> raised (poll Some example_float example_poller example_conn_bad_status) = Some ValueError
   \<and> Emit_plancache_changed example_diff
        \<in> set (effects (poll Some example_float example_poller example_conn_bad_status))
   \<and> Emit_cpu_util_changed (49 / 100)
        \<in> set (effects (poll Some example_float example_poller example_conn_bad_status))
   \<and> GetPlanCache example_conn_down = Inl QueryError
   \<and> filter is_emit (effects (poll Some example_float example_poller example_conn_down)) = []
   \<and> raised (poll Some example_float example_poller example_conn_down) = Some QueryError"
proof -
  note fetch = example_fetch_bad_status
  have ret: "DiffPlanCache Some example_new (plancache example_poller)
      (update_interval example_poller) = Inr example_diff"
    by (simp add: example_poller_fields example_diff_computed)
  have bad: "raised (poll Some example_float example_poller example_conn_bad_status)
      = Some ValueError"
    by (simp add: example_poll_bad_status)
  have down: "GetPlanCache example_conn_down = Inl QueryError"
    by (simp add: GetPlanCache_def example_conn_down_def)
  from memory_failure_after_plancache_events
    [where conn = example_conn_bad_status and new_plancache = example_new and chk = Some
      and self = example_poller and diff = example_diff and pyfloat = example_float
      and err = QueryError] fetch ret
  have emitted: "Emit_plancache_changed example_diff
        \<in> set (effects (poll Some example_float example_poller example_conn_bad_status))
   \<and> Emit_cpu_util_changed (49 / 100)
        \<in> set (effects (poll Some example_float example_poller example_conn_bad_status))"
    by (simp add: example_cpu_sum)
  from memory_failure_after_plancache_events
    [where conn = example_conn_down and new_plancache = example_new and chk = Some
      and self = example_poller and diff = example_diff and pyfloat = example_float
      and err = QueryError] down
  have silent: "filter is_emit (effects (poll Some example_float example_poller example_conn_down)) = []
   \<and> raised (poll Some example_float example_poller example_conn_down) = Some QueryError"
    by simp
  from fetch ret bad emitted down silent show ?thesis by simp
qed

text \<open>
  C9, as stated, fails: in a cycle that succeeds, arming the alarm for the next
  invocation is the first effect, before the query and before the three emissions.
\<close>

theorem alarm_armed_before_emission_counterexample:
  "effects (poll Some example_float example_poller example_conn) =
     [SetAlarmIn 5, ConnQuery GET_PLANCACHE_QUERY,
      Emit_plancache_changed example_diff, Emit_cpu_util_changed (49 / 100),
      ConnGet TOTAL_SERVER_MEMORY_QUERY, Emit_mem_usage_changed 2048]
   \<and> effects (poll Some example_float example_poller example_conn) ! 0 = SetAlarmIn 5
   \<and> is_emit (effects (poll Some example_float example_poller example_conn) ! 2)
   \<and> is_emit (effects (poll Some example_float example_poller example_conn) ! 3)
   \<and> is_emit (effects (poll Some example_float example_poller example_conn) ! 5)"
  by (simp add: example_poll)

text \<open>
  C9, amended. In every poll cycle, whatever its outcome, the next invocation is armed
  as the first action (\<open>loop.set_alarm_in\<close> with the update interval), before the
  fetch, the diff and the emissions of the cycle, and it is armed once.
\<close>

theorem alarm_armed_first:
  "\<exists>rest. effects (poll chk pyfloat self conn) =
       SetAlarmIn (update_interval self) # ConnQuery GET_PLANCACHE_QUERY # rest
     \<and> (\<forall>t. SetAlarmIn t \<notin> set rest)"
  by (simp add: poll_def Let_def split: sum.splits)

end
